theory Spec2Isabelle
  imports Complex_Main "HOL-Library.Sublist" "HOL-Library.Log_Nat"
begin

section \<open>Strings\<close>

text \<open>
  A Python \<open>str\<close> is a sequence of Unicode code points.  The canned answers and the
  system prompt of \<open>app.py\<close> contain code points beyond ASCII (U+2014, U+2019, U+2013),
  so a string is modelled as the list of its code points, and \<open>length\<close> counts what
  Python's \<open>len\<close> counts.  ASCII text is written \<open>u ''...''\<close>.
\<close>

type_synonym pystr = "nat list"

abbreviation u :: "string \<Rightarrow> pystr" where
  "u s \<equiv> map of_char s"

text \<open>
  \<open>str.strip()\<close> without argument removes leading and trailing whitespace, where
  whitespace is what CPython's \<open>_PyUnicode_IsWhitespace\<close> accepts: U+0009..U+000D,
  U+001C..U+0020, U+0085, U+00A0, U+1680, U+2000..U+200A, U+2028, U+2029, U+202F,
  U+205F and U+3000.
\<close>

definition is_space :: "nat \<Rightarrow> bool" where
  "is_space c =
     ((9 \<le> c \<and> c \<le> 13) \<or> (28 \<le> c \<and> c \<le> 32) \<or> c = 133 \<or> c = 160 \<or> c = 5760 \<or>
      (8192 \<le> c \<and> c \<le> 8202) \<or> c = 8232 \<or> c = 8233 \<or> c = 8239 \<or> c = 8287 \<or>
      c = 12288)"

definition strip :: "pystr \<Rightarrow> pystr" where
  "strip s = rev (dropWhile is_space (rev (dropWhile is_space s)))"

definition trimmed :: "pystr \<Rightarrow> bool" where
  "trimmed s = (if s = [] then True else \<not> is_space (hd s) \<and> \<not> is_space (last s))"

section \<open>Exceptions\<close>

text \<open>
  The exceptions the module can meet: the three the interpreter raises for the operations
  the module applies itself (membership test or subscript on a value that does not
  support it, a method call on a value that lacks the method, a missing dictionary key),
  and \<open>Raised b s\<close>, an exception raised by foreign code (the external client, the
  \<open>__str__\<close> of an object).  \<open>b\<close> says whether it is an instance of \<open>Exception\<close>
  (\<open>KeyboardInterrupt\<close>, \<open>SystemExit\<close> and \<open>GeneratorExit\<close> are not), which is what an
  \<open>except Exception\<close> clause catches; \<open>s\<close> is what \<open>str()\<close> does on it: return a text,
  or raise in turn.
\<close>

datatype pyexn = TypeError | AttributeError | KeyError | Raised bool "pyexn + pystr"

fun is_Exception :: "pyexn \<Rightarrow> bool" where
  "is_Exception (Raised b s) = b"
| "is_Exception e = True"

text \<open>Sequencing of computations that may raise.\<close>

definition bind_exn :: "pyexn + 'a \<Rightarrow> ('a \<Rightarrow> pyexn + 'b) \<Rightarrow> pyexn + 'b" where
  "bind_exn x f = (case x of Inl e \<Rightarrow> Inl e | Inr a \<Rightarrow> f a)"

text \<open>The results of a loop body run on each item in turn: the first raise ends the loop.\<close>

fun collect :: "(pyexn + 'a) list \<Rightarrow> pyexn + 'a list" where
  "collect [] = Inr []"
| "collect (x # xs) = bind_exn x (\<lambda>a. bind_exn (collect xs) (\<lambda>as. Inr (a # as)))"

section \<open>Values\<close>

text \<open>
  The values the response normaliser inspects.  It is typed \<open>Any\<close> and probes its
  argument with \<open>hasattr\<close>, \<open>getattr\<close>, \<open>isinstance\<close> against \<open>str\<close>, \<open>list\<close>,
  \<open>tuple\<close> and \<open>dict\<close>, truth tests and \<open>str()\<close>.  \<open>PObj attrs t s\<close> is any other
  object: \<open>attrs\<close> are its attributes, \<open>t\<close> its truth value and \<open>s\<close> what its
  \<open>__str__\<close> does: return a text, or raise.  The built-in types carry none of the attributes \<open>text\<close>,
  \<open>candidates\<close>, \<open>outputs\<close>, \<open>content\<close>.  The same type holds a parsed JSON body (which
  has no tuples and no objects).
\<close>

datatype pyval =
    PNone
  | PBool bool
  | PInt int
  | PFloat rat
  | PStr pystr
  | PList "pyval list"
  | PTuple "pyval list"
  | PDict "(pyval \<times> pyval) list"
  | PObj "(pystr \<times> pyval) list" bool "pyexn + pystr"

text \<open>Python's truth test (\<open>if p\<close>, \<open>a or b\<close>).\<close>

fun truthy :: "pyval \<Rightarrow> bool" where
  "truthy PNone = False"
| "truthy (PBool b) = b"
| "truthy (PInt i) = (i \<noteq> 0)"
| "truthy (PFloat r) = (r \<noteq> 0)"
| "truthy (PStr s) = (s \<noteq> [])"
| "truthy (PList xs) = (xs \<noteq> [])"
| "truthy (PTuple xs) = (xs \<noteq> [])"
| "truthy (PDict kvs) = (kvs \<noteq> [])"
| "truthy (PObj attrs t s) = t"

section \<open>The library operations the module calls\<close>

text \<open>
  Three operations of the Python runtime decide results of the module and are not defined
  by it: \<open>str.lower\<close> (Unicode case mapping), \<open>difflib.SequenceMatcher(None, a, b).ratio()\<close>
  and the built-in \<open>str()\<close>, on a value of a built-in type other than \<open>str\<close>
  (\<open>str_of\<close>: the \<open>repr\<close> of numbers and containers, which raises when the \<open>repr\<close> of
  a nested value does or the nesting is too deep) and on an exception the interpreter
  raised (\<open>str_exn\<close>, its message).  The module's functions take them as
  a parameter, so that every theorem below holds for whatever these operations compute.

  \<open>ratio\<close> returns a double; a double is modelled as the rational number it denotes, so
  that \<open>>\<close> and \<open>>=\<close> on doubles are \<open>>\<close> and \<open>\<ge>\<close> on \<open>rat\<close>.
\<close>

record runtime =
  lower :: "pystr \<Rightarrow> pystr"
  ratio :: "pystr \<Rightarrow> pystr \<Rightarrow> rat"
  str_of :: "pyval \<Rightarrow> pyexn + pystr"
  str_exn :: "pyexn \<Rightarrow> pystr"

text \<open>
  \<open>str(v)\<close>: a string is itself, an object answers with its \<open>__str__\<close>; the call
  returns a text or raises.
\<close>

definition py_str :: "runtime \<Rightarrow> pyval \<Rightarrow> pyexn + pystr" where
  "py_str rt v = (case v of PStr s \<Rightarrow> Inr s | PObj attrs t s \<Rightarrow> s | _ \<Rightarrow> str_of rt v)"

section \<open>The canned answers\<close>

text \<open>
  \<open>PREDEFINED_ANSWERS\<close>, a dict literal; a Python dict iterates in insertion order, so
  the table is the association list of the literal, in the order it is written.
\<close>

definition PREDEFINED_ANSWERS :: "(pystr \<times> pystr) list" where
  "PREDEFINED_ANSWERS =
    [(u ''life story'',
      u ''I grew up fascinated by how technology connects people. '' @
      u ''My journey began with curiosity about automation and intelligence, '' @
      u ''and I evolved into an assistant designed to simplify learning and creativity.''),
     (u ''superpower'',
      u ''My superpower is clarity '' @ [8212] @
      u '' I can take complex ideas and make them simple, '' @
      u ''helping people grasp even the trickiest concepts effortlessly.''),
     (u ''grow'',
      u ''First, emotional understanding '' @ [8212] @ u '' I aim to read context better. '' @
      u ''Second, creative storytelling '' @ [8212] @ u '' to make learning inspiring. '' @
      u ''Third, adaptability '' @ [8212] @ u '' to learn faster from real conversations.''),
     (u ''misconception'',
      u ''People sometimes think I'' @ [8217] @ u ''m just logical or emotionless. '' @
      u ''Actually, I'' @ [8217] @
      u ''m built to understand empathy, tone, and subtle meaning too.''),
     (u ''boundaries'',
      u ''I push my limits by handling increasingly complex questions and refining how I think. '' @
      u ''Growth, to me, means helping others go further than they expected.'')]"

text \<open>\<open>PREDEFINED_ANSWERS.keys()\<close>.\<close>

definition keys :: "pystr list" where
  "keys = map fst PREDEFINED_ANSWERS"

text \<open>\<open>PREDEFINED_ANSWERS[key]\<close>, which raises \<open>KeyError\<close> on a missing key.\<close>

definition subscript :: "pystr \<Rightarrow> pyexn + pystr" where
  "subscript key = (case map_of PREDEFINED_ANSWERS key of None \<Rightarrow> Inl KeyError | Some a \<Rightarrow> Inr a)"

section \<open>match_predefined_answer\<close>

text \<open>
  The first loop: \<open>for key in PREDEFINED_ANSWERS.keys(): if key in m: return ...\<close>.
  \<open>key in m\<close> on two strings is the contiguous-substring test, \<open>sublist\<close>.
  The result is the key of the first hit, if any.
\<close>

fun substring_pass :: "pystr \<Rightarrow> pystr list \<Rightarrow> pystr option" where
  "substring_pass m [] = None"
| "substring_pass m (key # ks) = (if sublist key m then Some key else substring_pass m ks)"

text \<open>
  The second loop, on the pair \<open>(best_score, best_key)\<close>:
  \<open>ratio = SequenceMatcher(None, m, key).ratio(); if ratio > best_score: best_score, best_key = ratio, key\<close>.
\<close>

fun similarity_pass :: "(pystr \<Rightarrow> rat) \<Rightarrow> pystr list \<Rightarrow> rat \<times> pystr option \<Rightarrow> rat \<times> pystr option" where
  "similarity_pass r [] best = best"
| "similarity_pass r (key # ks) (best_score, best_key) =
     (if r key > best_score then similarity_pass r ks (r key, Some key)
      else similarity_pass r ks (best_score, best_key))"

text \<open>
  The double written \<open>0.55\<close> in the source: the double nearest to 11/20, which is
  \<open>0x1.199999999999ap-1\<close>, slightly above 11/20.
\<close>

definition threshold :: rat where
  "threshold = 2476979795053773 / 4503599627370496"

text \<open>
  The function.  It returns \<open>None\<close> or an answer; \<open>Inl\<close> is an exception leaving it.
  The last test \<open>best_score >= 0.55 and best_key\<close> is a truth test of \<open>best_key\<close>:
  \<open>None\<close> and the empty string are false.
\<close>

definition match_predefined_answer :: "runtime \<Rightarrow> pystr \<Rightarrow> pyexn + pystr option" where
  "match_predefined_answer rt message =
     (if message = [] then Inr None
      else
        let m = lower rt message in
        case substring_pass m keys of
          Some key \<Rightarrow> map_sum id Some (subscript key)
        | None \<Rightarrow>
            (case similarity_pass (ratio rt m) keys (0, None) of
               (best_score, best_key) \<Rightarrow>
                 (case best_key of
                    Some key \<Rightarrow>
                      if best_score \<ge> threshold \<and> key \<noteq> [] then map_sum id Some (subscript key)
                      else Inr None
                  | None \<Rightarrow> Inr None)))"

section \<open>The response normaliser\<close>

text \<open>
  \<open>hasattr(v, name)\<close> and \<open>getattr(v, name)\<close>: \<open>attr v name\<close> is \<open>None\<close> when the value has no
  such attribute.  \<open>getattr(v, name, None)\<close> is \<open>attr_or_none\<close>.
\<close>

fun attr :: "pyval \<Rightarrow> pystr \<Rightarrow> pyval option" where
  "attr (PObj attrs t s) name = map_of attrs name"
| "attr v name = None"

definition attr_or_none :: "pyval \<Rightarrow> pystr \<Rightarrow> pyval" where
  "attr_or_none v name = (case attr v name of Some x \<Rightarrow> x | None \<Rightarrow> PNone)"

text \<open>\<open>d.get(key)\<close> on a dict, with a string key: the value, or \<open>None\<close>.\<close>

definition dict_get :: "(pyval \<times> pyval) list \<Rightarrow> pystr \<Rightarrow> pyval" where
  "dict_get d key = (case map_of d (PStr key) of Some x \<Rightarrow> x | None \<Rightarrow> PNone)"

text \<open>\<open>a or b\<close>.\<close>

definition py_or :: "pyval \<Rightarrow> pyval \<Rightarrow> pyval" where
  "py_or a b = (if truthy a then a else b)"

text \<open>
  \<open>" ".join(xs)\<close>: the strings separated by single spaces; \<open>TypeError\<close> when an item is
  not a string.  \<open>join_nonempty parts\<close> is \<open>" ".join(p for p in parts if p)\<close>.
\<close>

fun join_space :: "pyval list \<Rightarrow> pyexn + pystr" where
  "join_space [] = Inr []"
| "join_space [PStr s] = Inr s"
| "join_space (PStr s # xs) = map_sum id (\<lambda>t. s @ [32] @ t) (join_space xs)"
| "join_space (x # xs) = Inl TypeError"

definition join_nonempty :: "pyval list \<Rightarrow> pyexn + pystr" where
  "join_nonempty parts = join_space (filter truthy parts)"

text \<open>
  The piece taken from one candidate (lines 111-114):
  \<open>c.get("content") or c.get("text") or ""\<close> for a dict, the same on attributes otherwise.
\<close>

definition candidate_part :: "pyval \<Rightarrow> pyval" where
  "candidate_part c =
     (case c of
        PDict d \<Rightarrow> py_or (py_or (dict_get d (u ''content'')) (dict_get d (u ''text''))) (PStr [])
      | _ \<Rightarrow> py_or (py_or (attr_or_none c (u ''content'')) (attr_or_none c (u ''text''))) (PStr []))"

text \<open>The pieces taken from one output (lines 122-132); an output with a list under
  \<open>content\<close> gives one piece per item, and \<open>str(item)\<close> may raise.\<close>

definition item_part :: "runtime \<Rightarrow> pyval \<Rightarrow> pyexn + pyval" where
  "item_part rt item =
     (case item of
        PDict d \<Rightarrow>
          Inr (py_or (py_or (dict_get d (u ''text'')) (dict_get d (u ''content''))) (PStr []))
      | _ \<Rightarrow> map_sum id PStr (py_str rt item))"

definition output_parts :: "runtime \<Rightarrow> pyval \<Rightarrow> pyexn + pyval list" where
  "output_parts rt out =
     (case out of
        PDict d \<Rightarrow>
          (case map_of d (PStr (u ''content'')) of
             Some (PList items) \<Rightarrow> collect (map (item_part rt) items)
           | _ \<Rightarrow>
               Inr [py_or (py_or (dict_get d (u ''text'')) (dict_get d (u ''content''))) (PStr [])])
      | _ \<Rightarrow>
          Inr [py_or (py_or (attr_or_none out (u ''text'')) (attr_or_none out (u ''content'')))
                     (PStr [])])"

text \<open>
  The inner \<open>try\<close> of the \<open>outputs\<close> branch (lines 118-135).  \<open>Inr (Some s)\<close> is
  \<open>return s\<close>; \<open>Inr None\<close> is falling through to the next step, which also happens when
  the block raises an instance of \<open>Exception\<close> (\<open>except Exception: pass\<close>); any other
  exception goes on.
\<close>

definition outputs_pass :: "runtime \<Rightarrow> pyval \<Rightarrow> pyexn + pystr option" where
  "outputs_pass rt outputs =
     (let extract = (\<lambda>outs.
            case bind_exn (collect (map (output_parts rt) outs))
                   (\<lambda>extracted. join_nonempty (concat extracted)) of
              Inr s \<Rightarrow> Inr (Some (strip s))
            | Inl e \<Rightarrow> if is_Exception e then Inr None else Inl e)
      in case outputs of
           PList outs \<Rightarrow> extract outs
         | PTuple outs \<Rightarrow> extract outs
         | _ \<Rightarrow> Inr None)"

text \<open>The loop over \<open>("text", "reply", "content")\<close> on a dict response (lines 137-140).\<close>

fun mapping_pass :: "(pyval \<times> pyval) list \<Rightarrow> pystr list \<Rightarrow> pystr option" where
  "mapping_pass d [] = None"
| "mapping_pass d (key # ks) =
     (case dict_get d key of
        PStr val \<Rightarrow> if strip val \<noteq> [] then Some (strip val) else mapping_pass d ks
      | _ \<Rightarrow> mapping_pass d ks)"

text \<open>
  Steps 4 and 5 (lines 136-141): the mapping, then \<open>str(response).strip() or ""\<close>, where
  \<open>str(response)\<close> may raise.
\<close>

definition mapping_or_str :: "runtime \<Rightarrow> pyval \<Rightarrow> pyexn + pystr" where
  "mapping_or_str rt response =
     (let fallback = bind_exn (py_str rt response) (\<lambda>t. Inr (if strip t \<noteq> [] then strip t else []))
      in case response of
           PDict d \<Rightarrow>
             (case mapping_pass d [u ''text'', u ''reply'', u ''content''] of
                Some s \<Rightarrow> Inr s
              | None \<Rightarrow> fallback)
         | _ \<Rightarrow> fallback)"

text \<open>Step 3 onwards (lines 116-141).\<close>

definition from_outputs :: "runtime \<Rightarrow> pyval \<Rightarrow> pyexn + pystr" where
  "from_outputs rt response =
     (case attr response (u ''outputs'') of
        Some outputs \<Rightarrow>
          bind_exn (outputs_pass rt outputs) (\<lambda>returned.
            case returned of
              Some s \<Rightarrow> Inr s
            | None \<Rightarrow> mapping_or_str rt response)
      | None \<Rightarrow> mapping_or_str rt response)"

text \<open>Step 2 onwards (lines 106-141); the join of the candidates' pieces may raise.\<close>

definition from_candidates :: "runtime \<Rightarrow> pyval \<Rightarrow> pyexn + pystr" where
  "from_candidates rt response =
     (let pieces = (\<lambda>cs. map_sum id strip (join_nonempty (map candidate_part cs)))
      in case attr response (u ''candidates'') of
           Some (PList cs) \<Rightarrow> if cs \<noteq> [] then pieces cs else from_outputs rt response
         | Some (PTuple cs) \<Rightarrow> if cs \<noteq> [] then pieces cs else from_outputs rt response
         | _ \<Rightarrow> from_outputs rt response)"

text \<open>The body of the outer \<open>try\<close> (lines 104-141).\<close>

definition extract_try :: "runtime \<Rightarrow> pyval \<Rightarrow> pyexn + pystr" where
  "extract_try rt response =
     (case attr response (u ''text'') of
        Some (PStr t) \<Rightarrow> Inr (strip t)
      | _ \<Rightarrow> from_candidates rt response)"

text \<open>
  \<open>_extract_text_from_gemini_response\<close>: the \<open>try\<close>, and
  \<open>except Exception: return str(response)\<close>.  The clause catches the instances of
  \<open>Exception\<close> only, and the \<open>str(response)\<close> of line 144 runs outside any \<open>try\<close>: when it
  raises, the exception leaves the function.
\<close>

definition extract_text_from_gemini_response :: "runtime \<Rightarrow> pyval \<Rightarrow> pyexn + pystr" where
  "extract_text_from_gemini_response rt response =
     (case extract_try rt response of
        Inr s \<Rightarrow> Inr s
      | Inl e \<Rightarrow> if is_Exception e then py_str rt response else Inl e)"

section \<open>The request handler\<close>

text \<open>
  The external client, as far as \<open>chat\<close> probes it: \<open>generate_content\<close> is
  \<open>client.models.generate_content\<close> when \<open>client\<close> has \<open>models\<close> and that has
  \<open>generate_content\<close>; \<open>generate\<close> and \<open>predict\<close> are the methods of these names when
  present; \<open>direct\<close> is calling the client itself (which raises when it is not callable).
  A call takes the model name and the prompt and returns a response or raises.
\<close>

type_synonym call = "pystr \<Rightarrow> pystr \<Rightarrow> pyexn + pyval"

record genai_client =
  generate_content :: "call option"
  generate :: "call option"
  predict :: "call option"
  direct :: call

text \<open>
  What the module fixes at import time: \<open>client\<close> (\<open>None\<close> without the SDK or a key) and
  \<open>DEFAULT_MODEL\<close> (from the environment, else \<open>gemini-2.0-flash\<close>).
\<close>

record config =
  client :: "genai_client option"
  DEFAULT_MODEL :: pystr

definition SYSTEM_PROMPT :: pystr where
  "SYSTEM_PROMPT =
     u ''You are '' @ [34] @ u ''Nichirin'' @ [34, 32, 8212] @
     u '' a warm, conversational AI who speaks like a real person. '' @
     u ''Keep responses concise (20'' @ [8211] @ u ''60 seconds spoken). '' @
     u ''Use natural tone and spoken phrasing. '' @
     u ''End politely, like '' @ [39] @ u ''Anything else you'' @ [39] @ u ''d like to ask?'' @ [39]"

text \<open>A response: the dict given to \<open>jsonify\<close> and the status code.\<close>

record response =
  body :: pyval
  status :: nat

definition error_response :: "pystr \<Rightarrow> nat \<Rightarrow> response" where
  "error_response msg code = \<lparr>body = PDict [(PStr (u ''error''), PStr msg)], status = code\<rparr>"

definition reply_response :: "pystr \<Rightarrow> response" where
  "reply_response txt = \<lparr>body = PDict [(PStr (u ''reply''), PStr txt)], status = 200\<rparr>"

text \<open>
  \<open>key in data\<close> with a string key: dict membership, element of a list or tuple,
  substring of a string; \<open>TypeError\<close> on a value that is no container.
\<close>

fun py_in :: "pystr \<Rightarrow> pyval \<Rightarrow> pyexn + bool" where
  "py_in key (PDict d) = Inr (PStr key \<in> fst ` set d)"
| "py_in key (PList xs) = Inr (PStr key \<in> set xs)"
| "py_in key (PTuple xs) = Inr (PStr key \<in> set xs)"
| "py_in key (PStr s) = Inr (sublist key s)"
| "py_in key v = Inl TypeError"

text \<open>
  \<open>data[key]\<close> with a string key: the dict's value (\<open>KeyError\<close> when missing);
  \<open>TypeError\<close> on a list, a tuple, a string and every value that has no subscript.
\<close>

fun py_getitem :: "pyval \<Rightarrow> pystr \<Rightarrow> pyexn + pyval" where
  "py_getitem (PDict d) key = (case map_of d (PStr key) of Some x \<Rightarrow> Inr x | None \<Rightarrow> Inl KeyError)"
| "py_getitem v key = Inl TypeError"

text \<open>\<open>v.strip()\<close> on an arbitrary value: \<open>AttributeError\<close> unless it is a string.\<close>

fun py_strip :: "pyval \<Rightarrow> pyexn + pystr" where
  "py_strip (PStr s) = Inr (strip s)"
| "py_strip v = Inl AttributeError"

text \<open>
  The \<open>messages\<close> branch (lines 172-182), on \<open>msgs = data["messages"]\<close>; the result is
  \<open>user_message\<close>, which stays \<open>""\<close> when no case applies.
\<close>

definition from_messages :: "pyval \<Rightarrow> pyexn + pystr" where
  "from_messages msgs =
     (case msgs of
        PStr s \<Rightarrow> Inr (strip s)
      | PList xs \<Rightarrow>
          if xs \<noteq> [] then
            (case last xs of
               PStr s \<Rightarrow> Inr (strip s)
             | PDict d \<Rightarrow>
                 py_strip (py_or (py_or (py_or (dict_get d (u ''content'')) (dict_get d (u ''message'')))
                                        (dict_get d (u ''text''))) (PStr []))
             | _ \<Rightarrow> Inr [])
          else Inr []
      | _ \<Rightarrow> Inr [])"

text \<open>
  Lines 168-184.  \<open>Inr (Some user_message)\<close> when one of the first two branches ran,
  \<open>Inr None\<close> for the \<open>else\<close> branch, which returns the 400 response.
\<close>

definition user_message_of :: "pyval \<Rightarrow> pyexn + pystr option" where
  "user_message_of data =
     bind_exn (py_in (u ''message'') data) (\<lambda>has_message.
     bind_exn (if has_message then py_getitem data (u ''message'') else Inr PNone) (\<lambda>message.
       case (has_message, message) of
         (True, PStr s) \<Rightarrow> Inr (Some (strip s))
       | _ \<Rightarrow>
           bind_exn (py_in (u ''messages'') data) (\<lambda>has_messages.
             if has_messages then
               bind_exn (py_getitem data (u ''messages'')) (\<lambda>msgs.
               bind_exn (from_messages msgs) (\<lambda>user_message. Inr (Some user_message)))
             else Inr None)))"

text \<open>
  One external call as the handler issues it: which convention, with which model name
  and prompt.  The handler's result carries the list of the calls it made.
\<close>

datatype convention = GenerateContent | Generate | Predict | Direct

type_synonym issued = "convention \<times> pystr \<times> pystr"

text \<open>Lines 213-224: the first convention the client supports.\<close>

definition pick :: "genai_client \<Rightarrow> convention \<times> call" where
  "pick c =
     (case generate_content c of
        Some f \<Rightarrow> (GenerateContent, f)
      | None \<Rightarrow>
          (case generate c of
             Some f \<Rightarrow> (Generate, f)
           | None \<Rightarrow>
               (case predict c of
                  Some f \<Rightarrow> (Predict, f)
                | None \<Rightarrow> (Direct, direct c))))"

definition no_fields_message :: pystr where
  "no_fields_message =
     u ''No '' @ [39] @ u ''message'' @ [39] @ u '' or '' @ [39] @ u ''messages'' @ [39] @
     u '' provided''"

definition backend_unconfigured :: pystr where
  "backend_unconfigured =
     u ''Gemini backend is not configured on this server. '' @
     u ''I can still answer a set of predefined questions. '' @
     u ''For other queries, please configure GEMINI_API_KEY on the server.''"

definition empty_model_response :: pystr where
  "empty_model_response =
     u ''Received an empty response from the language model. '' @
     u ''Please check the model configuration or the API key.''"

text \<open>\<open>str(e)\<close> in the handler's \<open>except\<close> clause; it returns a text or raises.\<close>

definition exn_message :: "runtime \<Rightarrow> pyexn \<Rightarrow> pyexn + pystr" where
  "exn_message rt e = (case e of Raised b s \<Rightarrow> s | _ \<Rightarrow> Inr (str_exn rt e))"

text \<open>
  The body of the handler's \<open>try\<close> (lines 212-233), with the calls it issued: the
  prompt, the call, the normaliser and the substitute for an empty text.
\<close>

text \<open>The prompt, \<open>f"{SYSTEM_PROMPT}\\nUser: {user_message}\\nAssistant:"\<close>.\<close>

definition prompt_for :: "pystr \<Rightarrow> pystr" where
  "prompt_for user_message =
     SYSTEM_PROMPT @ [10] @ u ''User: '' @ user_message @ [10] @ u ''Assistant:''"

definition try_block :: "runtime \<Rightarrow> pystr \<Rightarrow> genai_client \<Rightarrow> pystr \<Rightarrow> (pyexn + response) \<times> issued list" where
  "try_block rt model c user_message =
     (let prompt = prompt_for user_message;
          (conv, f) = pick c
      in (bind_exn (f model prompt) (\<lambda>resp.
          bind_exn (extract_text_from_gemini_response rt resp) (\<lambda>reply_text.
            Inr (reply_response (if reply_text = [] then empty_model_response else reply_text)))),
          [(conv, model, prompt)]))"

text \<open>
  \<open>chat\<close>, on \<open>data = request.get_json(silent=True)\<close> (\<open>PNone\<close> when the body is not
  JSON).  \<open>Inl\<close> is an exception that leaves the handler.  The clause
  \<open>except Exception as e\<close> of line 234 catches the instances of \<open>Exception\<close> raised in
  the \<open>try\<close>; its own \<open>str(e)\<close> runs outside any \<open>try\<close>.
\<close>

definition chat :: "runtime \<Rightarrow> config \<Rightarrow> pyval \<Rightarrow> (pyexn + response) \<times> issued list" where
  "chat rt cfg data =
     (if \<not> truthy data then (Inr (error_response (u ''No JSON body provided'') 400), [])
      else
       (case user_message_of data of
          Inl e \<Rightarrow> (Inl e, [])
        | Inr None \<Rightarrow>
            (Inr (error_response no_fields_message 400), [])
        | Inr (Some user_message) \<Rightarrow>
            (if user_message = [] then (Inr (error_response (u ''Empty message provided'') 400), [])
             else
              (case match_predefined_answer rt user_message of
                 Inl e \<Rightarrow> (Inl e, [])
               | Inr static_reply \<Rightarrow>
                  (if static_reply \<noteq> None \<and> static_reply \<noteq> Some [] then
                     (Inr (reply_response (case static_reply of Some a \<Rightarrow> a | None \<Rightarrow> [])), [])
                   else
                    (case client cfg of
                       None \<Rightarrow> (Inr (reply_response backend_unconfigured), [])
                     | Some c \<Rightarrow>
                        (case try_block rt (DEFAULT_MODEL cfg) c user_message of
                           (Inr r, calls) \<Rightarrow> (Inr r, calls)
                         | (Inl e, calls) \<Rightarrow>
                             (if is_Exception e then
                                (case exn_message rt e of
                                   Inr t \<Rightarrow>
                                     (Inr (error_response (u ''Gemini error: '' @ t) 500), calls)
                                 | Inl e' \<Rightarrow> (Inl e', calls))
                              else (Inl e, calls)))))))))"

text \<open>Whether the body of a response has a string under the field \<open>name\<close>.\<close>

definition has_field :: "response \<Rightarrow> string \<Rightarrow> bool" where
  "has_field r name =
     (case body r of
        PDict d \<Rightarrow> (case map_of d (PStr (u name)) of Some (PStr s) \<Rightarrow> True | _ \<Rightarrow> False)
      | _ \<Rightarrow> False)"

section \<open>Example inputs\<close>

text \<open>
  Two responses with a non-empty \<open>candidates\<close> sequence whose pieces are not strings:
  a dict candidate with a number under \<open>content\<close>, and an object candidate whose
  \<open>content\<close> is an object (as the SDK's candidates are).  The second one prints with
  blanks around its text.
\<close>

definition typed_candidate :: pyval where
  "typed_candidate =
     PObj [(u ''candidates'', PList [PDict [(PStr (u ''content''), PInt 5)]])] True
          (Inr (u ''<response>''))"

definition padded_response :: pyval where
  "padded_response =
     PObj [(u ''candidates'',
            PTuple [PObj [(u ''content'', PObj [(u ''parts'', PList [])] True (Inr (u ''parts=[]'')))]
                         True (Inr (u ''candidate''))])]
          True (Inr (u '' reply ''))"

text \<open>
  \<open>boom\<close> is \<open>RuntimeError("boom")\<close> and \<open>interrupt\<close> is \<open>KeyboardInterrupt()\<close>, which is
  no instance of \<open>Exception\<close>.  \<open>raising_response\<close> is the first response above with a
  \<open>__str__\<close> that raises \<open>boom\<close>; \<open>unprintable\<close> is an object with no attribute
  whose \<open>__str__\<close> raises it.
\<close>

definition boom :: pyexn where
  "boom = Raised True (Inr (u ''boom''))"

definition interrupt :: pyexn where
  "interrupt = Raised False (Inr [])"

definition raising_response :: pyval where
  "raising_response =
     PObj [(u ''candidates'', PList [PDict [(PStr (u ''content''), PInt 5)]])] True (Inl boom)"

definition unprintable :: pyval where
  "unprintable = PObj [] True (Inl boom)"

text \<open>
  A response whose \<open>outputs\<close> hold one item that is interrupted while it is printed;
  the response itself prints.
\<close>

definition interrupting_response :: pyval where
  "interrupting_response =
     PObj [(u ''outputs'',
            PList [PDict [(PStr (u ''content''), PList [PObj [] True (Inl interrupt)])]])]
          True (Inr (u ''response''))"

text \<open>
  Clients: \<open>client_with f\<close> has the primary interface \<open>f\<close> and no other.  One raises an
  \<open>Exception\<close> with the text \<open>quota exceeded\<close>, one is interrupted, one answers with a
  text, one answers with \<open>unprintable\<close>.
\<close>

definition client_with :: "call \<Rightarrow> genai_client" where
  "client_with f =
     \<lparr>generate_content = Some f, generate = None, predict = None,
      direct = (\<lambda>model prompt. Inl (Raised True (Inr (u ''object is not callable''))))\<rparr>"

definition failing_client :: genai_client where
  "failing_client = client_with (\<lambda>model prompt. Inl (Raised True (Inr (u ''quota exceeded''))))"

definition interrupted_client :: genai_client where
  "interrupted_client = client_with (\<lambda>model prompt. Inl interrupt)"

definition answering_client :: genai_client where
  "answering_client =
     client_with (\<lambda>model prompt.
       Inr (PObj [(u ''text'', PStr (u '' Sunny. ''))] True (Inr (u ''response''))))"

definition unprintable_client :: genai_client where
  "unprintable_client = client_with (\<lambda>model prompt. Inr unprintable)"

text \<open>The two configurations, and the parsed body \<open>{"message": text}\<close>.\<close>

definition unconfigured :: config where
  "unconfigured = \<lparr>client = None, DEFAULT_MODEL = u ''gemini-2.0-flash''\<rparr>"

definition configured :: "genai_client \<Rightarrow> config" where
  "configured c = \<lparr>client = Some c, DEFAULT_MODEL = u ''gemini-2.0-flash''\<rparr>"

definition post :: "pystr \<Rightarrow> pyval" where
  "post txt = PDict [(PStr (u ''message''), PStr txt)]"

definition weather :: pystr where
  "weather = u ''what'' @ [39] @ u ''s the weather in Tokyo''"

definition life_story :: pystr where
  "life_story = u ''tell me about your life story''"

definition life_story_answer :: pystr where
  "life_story_answer =
     u ''I grew up fascinated by how technology connects people. '' @
     u ''My journey began with curiosity about automation and intelligence, '' @
     u ''and I evolved into an assistant designed to simplify learning and creativity.''"

section \<open>The best-scoring key, as the specification words it\<close>

text \<open>
  The maximum similarity ratio of the lowercased input \<open>m\<close> over the keys, and the key
  occurring first in table order among those that reach it.
\<close>

definition best_ratio :: "runtime \<Rightarrow> pystr \<Rightarrow> rat" where
  "best_ratio rt m = Max (ratio rt m ` set keys)"

definition first_best_key :: "runtime \<Rightarrow> pystr \<Rightarrow> pystr option" where
  "first_best_key rt m = find (\<lambda>key. ratio rt m key = best_ratio rt m) keys"

section \<open>A reference runtime\<close>

text \<open>
  Concrete library operations, for evaluating the module on concrete inputs.
  \<open>ascii_lower\<close> is \<open>str.lower\<close> on ASCII text.
\<close>

definition ascii_lower :: "pystr \<Rightarrow> pystr" where
  "ascii_lower s = map (\<lambda>c. if 65 \<le> c \<and> c \<le> 90 then c + 32 else c) s"

text \<open>
  Rounding a positive rational to the nearest double, ties to even, in the range of
  normal doubles: \<open>to_double\<close>.
\<close>

definition pow2 :: "int \<Rightarrow> rat" where
  "pow2 e = (if 0 \<le> e then 2 ^ nat e else 1 / 2 ^ nat (- e))"

definition round_half_even :: "rat \<Rightarrow> int" where
  "round_half_even x =
     (let f = \<lfloor>x\<rfloor>; d = x - of_int f
      in if d < 1 / 2 then f else if 1 / 2 < d then f + 1 else if even f then f else f + 1)"

definition to_double :: "rat \<Rightarrow> rat" where
  "to_double x =
     (if x \<le> 0 then 0
      else
        let (n, d) = quotient_of x;
            e0 = bitlen n - bitlen d;
            e = (if pow2 e0 \<le> x then e0 else e0 - 1)
        in of_int (round_half_even (x * pow2 (52 - e))) * pow2 (e - 52))"

text \<open>
  \<open>SequenceMatcher(None, a, b)\<close> of CPython's \<open>difflib\<close>, for \<open>b\<close> shorter than 200
  items (every key of the table is): no item of \<open>b\<close> is junk or dropped as popular.
  \<open>find_longest_match\<close> walks \<open>a\<close>; \<open>j2len\<close> holds, for each position \<open>j\<close> of \<open>b\<close>,
  the length of the longest match ending at the previous item of \<open>a\<close> and at \<open>j\<close>,
  and the best block is replaced only by a strictly longer one.  The result is
  \<open>(besti, bestj, bestsize)\<close>.
\<close>

fun scan_row :: "nat \<Rightarrow> nat \<Rightarrow> nat list \<Rightarrow> nat \<times> nat \<times> nat \<Rightarrow> nat \<times> nat \<times> nat" where
  "scan_row i j [] best = best"
| "scan_row i j (k # ks) (besti, bestj, bestsize) =
     scan_row i (Suc j) ks
       (if k > bestsize then (Suc i - k, Suc j - k, k) else (besti, bestj, bestsize))"

fun scan_rows :: "pystr \<Rightarrow> nat \<Rightarrow> pystr \<Rightarrow> nat list \<Rightarrow> nat \<times> nat \<times> nat \<Rightarrow> nat \<times> nat \<times> nat" where
  "scan_rows [] i b j2len best = best"
| "scan_rows (x # xs) i b j2len best =
     (let newj2len = map (\<lambda>(y, p). if y = x then Suc p else 0) (zip b (0 # j2len))
      in scan_rows xs (Suc i) b newj2len (scan_row i 0 newj2len best))"

definition find_longest_match :: "pystr \<Rightarrow> pystr \<Rightarrow> nat \<times> nat \<times> nat" where
  "find_longest_match a b = scan_rows a 0 b (replicate (length b) 0) (0, 0, 0)"

lemma scan_row_bound:
  "scan_row i j row best = (bi, bj, bs) \<Longrightarrow> bs > 0 \<Longrightarrow>
   (case best of (ci, cj, cs) \<Rightarrow> cs = 0 \<or> ci < n) \<Longrightarrow> i < n \<Longrightarrow> bi < n"
proof (induction row arbitrary: j best)
  case Nil
  then show ?case by auto
next
  case (Cons k ks)
  obtain ci cj cs where b: "best = (ci, cj, cs)" by (cases best)
  show ?case
  proof (cases "k > cs")
    case True
    then have "scan_row i (Suc j) ks (Suc i - k, Suc j - k, k) = (bi, bj, bs)"
      using Cons.prems(1) b by simp
    moreover have "Suc i - k < n" using True Cons.prems(4) by simp
    ultimately show ?thesis
      using Cons.IH[of "Suc j" "(Suc i - k, Suc j - k, k)"] Cons.prems by simp
  next
    case False
    then have "scan_row i (Suc j) ks (ci, cj, cs) = (bi, bj, bs)"
      using Cons.prems(1) b by simp
    then show ?thesis using Cons.IH[of "Suc j" "(ci, cj, cs)"] Cons.prems b by simp
  qed
qed

lemma scan_rows_bound:
  "scan_rows xs i b row best = (bi, bj, bs) \<Longrightarrow> bs > 0 \<Longrightarrow>
   (case best of (ci, cj, cs) \<Rightarrow> cs = 0 \<or> ci < i + length xs) \<Longrightarrow> bi < i + length xs"
proof (induction xs arbitrary: i row best)
  case Nil
  then show ?case by auto
next
  case (Cons x xs)
  let ?row = "map (\<lambda>(y, p). if y = x then Suc p else 0) (zip b (0 # row))"
  let ?best = "scan_row i 0 ?row best"
  obtain ci cj cs where sb: "?best = (ci, cj, cs)" by (cases ?best)
  have "cs = 0 \<or> ci < Suc i + length xs"
  proof (cases "cs = 0")
    case False
    then show ?thesis
      using scan_row_bound[OF sb, of "Suc i + length xs"] Cons.prems(3) by auto
  qed simp
  moreover have "scan_rows xs (Suc i) b ?row ?best = (bi, bj, bs)"
    using Cons.prems(1) by (simp add: Let_def)
  ultimately show ?case using Cons.IH[of "Suc i" ?row ?best] Cons.prems(2) sb by simp
qed

lemma find_longest_match_bound:
  "find_longest_match a b = (i, j, k) \<Longrightarrow> k > 0 \<Longrightarrow> i < length a"
  using scan_rows_bound[of a 0 b "replicate (length b) 0" "(0, 0, 0)" i j k]
  by (simp add: find_longest_match_def)

text \<open>
  The sum of the sizes of \<open>get_matching_blocks()\<close>: the longest block, then the same to
  its left and to its right.  (The library keeps the pending windows in a queue and
  sorts the blocks at the end; the sum does not depend on the order.)
\<close>

function matches :: "pystr \<Rightarrow> pystr \<Rightarrow> nat" where
  "matches a b =
     (case find_longest_match a b of
        (i, j, k) \<Rightarrow>
          if k = 0 then 0
          else (if 0 < i \<and> 0 < j then matches (take i a) (take j b) else 0) + k +
               (if i + k < length a \<and> j + k < length b
                then matches (drop (i + k) a) (drop (j + k) b) else 0))"
  by pat_completeness auto
termination
  apply (relation "measure (\<lambda>(a, b). length a)")
    apply simp
   apply (auto dest: find_longest_match_bound [OF sym])
  done

text \<open>
  \<open>ratio()\<close> is \<open>2.0 * matches / (len(a) + len(b))\<close>, and \<open>1.0\<close> for two empty
  sequences.  The product is exact and the division is rounded to the nearest double.
\<close>

definition sm_ratio :: "pystr \<Rightarrow> pystr \<Rightarrow> rat" where
  "sm_ratio a b =
     (if length a + length b = 0 then 1
      else to_double (2 * of_nat (matches a b) / of_nat (length a + length b)))"

text \<open>
  The reference runtime: the two operations above; the \<open>repr\<close> of built-in values and
  the messages of the interpreter's exceptions stay parameters.
\<close>

definition reference :: "(pyval \<Rightarrow> pyexn + pystr) \<Rightarrow> (pyexn \<Rightarrow> pystr) \<Rightarrow> runtime" where
  "reference so se = \<lparr>lower = ascii_lower, ratio = sm_ratio, str_of = so, str_exn = se\<rparr>"

section \<open>Properties of the matcher\<close>

lemma keys_eq:
  "keys = [u ''life story'', u ''superpower'', u ''grow'', u ''misconception'', u ''boundaries'']"
  by (simp add: keys_def PREDEFINED_ANSWERS_def)

lemma keys_nonempty: "[] \<notin> set keys"
  by (simp add: keys_eq)

lemma answers_nonempty: "(k, a) \<in> set PREDEFINED_ANSWERS \<Longrightarrow> a \<noteq> []"
  by (auto simp: PREDEFINED_ANSWERS_def)

text \<open>The subscript never raises on a key of the table, and no answer is empty.\<close>

lemma subscript_key:
  assumes "key \<in> set keys"
  shows "\<exists>a. subscript key = Inr a \<and> a \<noteq> [] \<and> (key, a) \<in> set PREDEFINED_ANSWERS"
proof -
  from assms have "map_of PREDEFINED_ANSWERS key \<noteq> None"
    by (simp add: keys_def map_of_eq_None_iff)
  then obtain a where a: "map_of PREDEFINED_ANSWERS key = Some a" by blast
  then have "(key, a) \<in> set PREDEFINED_ANSWERS" by (rule map_of_SomeD)
  with a show ?thesis by (auto simp: subscript_def dest: answers_nonempty)
qed

lemma threshold_pos: "0 < threshold"
  by (simp add: threshold_def)

text \<open>The threshold is the double that the literal \<open>0.55\<close> denotes.\<close>

lemma threshold_is_literal: "to_double (11 / 20) = threshold"
  by code_simp

text \<open>The first loop returns the first key, in table order, that is a substring.\<close>

lemma substring_pass_find: "substring_pass m ks = find (\<lambda>k. sublist k m) ks"
  by (induction ks) auto

lemma similarity_pass_char:
  "similarity_pass r ks (s, bk) =
     (if \<exists>k \<in> set ks. r k > s
      then (Max (r ` set ks), find (\<lambda>k. r k = Max (r ` set ks)) ks)
      else (s, bk))"
proof (induction ks arbitrary: s bk)
  case Nil
  then show ?case by simp
next
  case (Cons key ks)
  show ?case
  proof (cases "ks = []")
    case True
    then show ?thesis by simp
  next
    case ne: False
    have mx: "Max (r ` set (key # ks)) = max (r key) (Max (r ` set ks))"
      using ne by simp
    have fin: "finite (r ` set ks)" "r ` set ks \<noteq> {}" using ne by auto
    show ?thesis
    proof (cases "r key > s")
      case True
      show ?thesis
      proof (cases "\<exists>k \<in> set ks. r k > r key")
        case True
        then have "Max (r ` set ks) > r key" using fin by (auto simp: Max_gr_iff)
        then show ?thesis using True \<open>r key > s\<close> Cons.IH[of "r key" "Some key"] mx
          by (auto simp: max_def)
      next
        case False
        then have "Max (r ` set ks) \<le> r key" using fin by (auto simp: not_less)
        then show ?thesis using False \<open>r key > s\<close> Cons.IH[of "r key" "Some key"] mx
          by (auto simp: max_def)
      qed
    next
      case False
      show ?thesis
      proof (cases "\<exists>k \<in> set ks. r k > s")
        case True
        then have "Max (r ` set ks) > s" using fin by (auto simp: Max_gr_iff)
        then show ?thesis using True False Cons.IH[of s bk] mx
          by (auto simp: max_def)
      next
        case F2: False
        then show ?thesis using False Cons.IH[of s bk] by auto
      qed
    qed
  qed
qed

lemma first_best_key_Some: "\<exists>key. first_best_key rt m = Some key \<and> key \<in> set keys"
proof -
  have "finite (ratio rt m ` set keys)" "ratio rt m ` set keys \<noteq> {}"
    by (simp_all add: keys_eq)
  then have "Max (ratio rt m ` set keys) \<in> ratio rt m ` set keys" by (rule Max_in)
  then obtain k where "k \<in> set keys" "ratio rt m k = best_ratio rt m"
    by (auto simp: best_ratio_def)
  then have "first_best_key rt m \<noteq> None"
    by (auto simp: first_best_key_def find_None_iff)
  then obtain key where k: "first_best_key rt m = Some key" by blast
  then have "key \<in> set keys" by (auto simp: first_best_key_def find_Some_iff)
  with k show ?thesis by blast
qed

subsection \<open>Evaluations on the reference runtime\<close>

lemma rower_ratios:
  "map (sm_ratio (ascii_lower (u ''rower''))) keys =
     [4803839602528529 / 36028797018963968, 6004799503160661 / 9007199254740992,
      6004799503160661 / 9007199254740992, 2001599834386887 / 9007199254740992,
      4803839602528529 / 18014398509481984]"
  by code_simp

lemma rower_no_substring:
  "list_all (\<lambda>key. \<not> sublist key (ascii_lower (u ''rower''))) keys"
  by code_simp

lemma life_story_find:
  "find (\<lambda>k. sublist k (ascii_lower life_story)) keys =
     Some (u ''life story'')"
  by code_simp

subsection \<open>The similarity pass\<close>

text \<open>
  C2.  For every non-empty input none of whose keys is a substring of its lowercased
  form \<open>m\<close>: when the maximum ratio of \<open>m\<close> over the keys reaches the threshold (the double
  \<open>0.55\<close>), the result is the answer of the first key in table order whose ratio is that
  maximum (the running best is replaced only by a strictly greater ratio); when the
  maximum is below the threshold, the result is \<open>None\<close>.
\<close>

theorem similarity_match:
  assumes "message \<noteq> []"
    and "\<forall>key \<in> set keys. \<not> sublist key (lower rt message)"
  shows "(threshold \<le> best_ratio rt (lower rt message) \<longrightarrow>
            (\<exists>key a. first_best_key rt (lower rt message) = Some key \<and> subscript key = Inr a \<and>
               match_predefined_answer rt message = Inr (Some a))) \<and>
         (best_ratio rt (lower rt message) < threshold \<longrightarrow>
            match_predefined_answer rt message = Inr None)"
proof -
  let ?m = "lower rt message"
  let ?r = "ratio rt ?m"
  have sp: "substring_pass ?m keys = None"
    using assms(2) by (simp add: substring_pass_find find_None_iff)
  have fin: "finite (?r ` set keys)" "?r ` set keys \<noteq> {}" by (simp_all add: keys_eq)
  obtain key where key: "first_best_key rt ?m = Some key" "key \<in> set keys"
    using first_best_key_Some by blast
  obtain a where a: "subscript key = Inr a" using subscript_key[OF key(2)] by blast
  have kne: "key \<noteq> []" using key(2) keys_nonempty by auto
  show ?thesis
  proof (cases "\<exists>k \<in> set keys. ?r k > 0")
    case True
    then have "similarity_pass ?r keys (0, None) = (best_ratio rt ?m, Some key)"
      using key(1) by (simp add: similarity_pass_char best_ratio_def first_best_key_def)
    then show ?thesis using assms(1) sp key a kne
      by (auto simp: match_predefined_answer_def Let_def)
  next
    case False
    then have "similarity_pass ?r keys (0, None) = (0, None)"
      by (simp add: similarity_pass_char)
    moreover have "best_ratio rt ?m \<le> 0"
      unfolding best_ratio_def using False fin by (auto simp: not_less)
    ultimately show ?thesis using assms(1) sp threshold_pos
      by (auto simp: match_predefined_answer_def Let_def)
  qed
qed

text \<open>
  On the reference runtime, \<open>rower\<close> contains no key and its best ratio, the double
  nearest to 2/3, is reached by two keys, \<open>superpower\<close> and \<open>grow\<close>; the answer is that
  of \<open>superpower\<close>, the earlier one in the table.
\<close>

theorem similarity_match_witness:
  "\<forall>so se. u ''rower'' \<noteq> [] \<and>
     list_all (\<lambda>key. \<not> sublist key (lower (reference so se) (u ''rower''))) keys \<and>
     threshold \<le> best_ratio (reference so se) (lower (reference so se) (u ''rower'')) \<and>
     first_best_key (reference so se) (lower (reference so se) (u ''rower'')) =
       Some (u ''superpower'') \<and>
     match_predefined_answer (reference so se) (u ''rower'') =
       map_sum id Some (subscript (u ''superpower''))"
proof (intro allI)
  fix so se
  let ?rt = "reference so se"
  let ?m = "lower ?rt (u ''rower'')"
  have m: "?m = ascii_lower (u ''rower'')" by (simp add: reference_def)
  have r: "ratio ?rt = sm_ratio" by (simp add: reference_def)
  have ne: "u ''rower'' \<noteq> []" by simp
  have ns: "list_all (\<lambda>key. \<not> sublist key ?m) keys"
    unfolding m by (rule rower_no_substring)
  then have ns': "\<forall>key \<in> set keys. \<not> sublist key ?m" by (simp add: list_all_iff)
  have rs: "map (ratio ?rt ?m) keys =
     [4803839602528529 / 36028797018963968, 6004799503160661 / 9007199254740992,
      6004799503160661 / 9007199254740992, 2001599834386887 / 9007199254740992,
      4803839602528529 / 18014398509481984]"
    unfolding m r by (rule rower_ratios)
  have "ratio ?rt ?m ` set keys = set (map (ratio ?rt ?m) keys)" by simp
  then have br: "best_ratio ?rt ?m = 6004799503160661 / 9007199254740992"
    unfolding best_ratio_def rs by simp
  have th: "threshold \<le> best_ratio ?rt ?m" unfolding br by (simp add: threshold_def)
  have fb: "first_best_key ?rt ?m = Some (u ''superpower'')"
    using rs unfolding first_best_key_def br by (simp add: keys_eq)
  from similarity_match[OF ne ns'] th fb
  have "match_predefined_answer ?rt (u ''rower'') =
          map_sum id Some (subscript (u ''superpower''))"
    by auto
  with ne ns th fb show "u ''rower'' \<noteq> [] \<and>
     list_all (\<lambda>key. \<not> sublist key ?m) keys \<and>
     threshold \<le> best_ratio ?rt ?m \<and>
     first_best_key ?rt ?m = Some (u ''superpower'') \<and>
     match_predefined_answer ?rt (u ''rower'') =
       map_sum id Some (subscript (u ''superpower''))" by blast
qed

lemma find_Some_holds: "find P xs = Some x \<Longrightarrow> P x"
  by (induction xs) (auto split: if_splits)

lemma subscript_life_story: "subscript (u ''life story'') = Inr life_story_answer"
  by (simp add: subscript_def PREDEFINED_ANSWERS_def life_story_answer_def)

subsection \<open>The substring pass\<close>

text \<open>
  C3.  For every input whose lowercased form contains a key as a substring, the result
  is the answer of the first key in table order that is a substring of it, whatever the
  similarity ratio computes (the second pass is not consulted).  The lowercasing is
  assumed to map the empty string to itself, as \<open>str.lower\<close> does.
\<close>

theorem substring_match:
  assumes "lower rt [] = []"
    and "key \<in> set keys"
    and "sublist key (lower rt message)"
  shows "\<exists>k a. find (\<lambda>k. sublist k (lower rt message)) keys = Some k \<and>
           subscript k = Inr a \<and>
           (\<forall>r. match_predefined_answer (rt\<lparr>ratio := r\<rparr>) message = Inr (Some a))"
proof -
  let ?m = "lower rt message"
  have "find (\<lambda>k. sublist k ?m) keys \<noteq> None"
    using assms(2,3) by (auto simp: find_None_iff)
  then obtain k where k: "find (\<lambda>k. sublist k ?m) keys = Some k" by blast
  then have "k \<in> set keys" by (auto simp: find_Some_iff)
  then obtain a where a: "subscript k = Inr a" using subscript_key by blast
  have "key \<noteq> []" using assms(2) keys_nonempty by auto
  with assms(3) have "?m \<noteq> []" by auto
  with assms(1) have "message \<noteq> []" by auto
  then have "match_predefined_answer (rt\<lparr>ratio := r\<rparr>) message = Inr (Some a)" for r
    using k a by (simp add: match_predefined_answer_def substring_pass_find)
  with k a show ?thesis by blast
qed

text \<open>
  On the reference runtime, the request \<open>tell me about your life story\<close> of the
  specification gets the life-story answer.
\<close>

theorem substring_match_witness:
  "\<forall>so se. lower (reference so se) [] = [] \<and>
     u ''life story'' \<in> set keys \<and>
     sublist (u ''life story'') (lower (reference so se) life_story) \<and>
     find (\<lambda>k. sublist k (lower (reference so se) life_story)) keys =
       Some (u ''life story'') \<and>
     (\<forall>r. match_predefined_answer (reference so se\<lparr>ratio := r\<rparr>) life_story =
       Inr (Some life_story_answer))"
proof (intro allI)
  fix so se
  let ?rt = "reference so se"
  let ?msg = life_story
  have l0: "lower ?rt [] = []" by (simp add: reference_def ascii_lower_def)
  have m: "lower ?rt ?msg = ascii_lower ?msg" by (simp add: reference_def)
  have k: "u ''life story'' \<in> set keys" by (simp add: keys_eq)
  have f: "find (\<lambda>k. sublist k (lower ?rt ?msg)) keys = Some (u ''life story'')"
    unfolding m by (rule life_story_find)
  have sl: "sublist (u ''life story'') (lower ?rt ?msg)"
    using find_Some_holds[OF f] by simp
  from substring_match[OF l0 k sl] f subscript_life_story
  have "\<forall>r. match_predefined_answer (?rt\<lparr>ratio := r\<rparr>) ?msg =
       Inr (Some life_story_answer)"
    by auto
  with l0 k sl f show "lower ?rt [] = [] \<and>
     u ''life story'' \<in> set keys \<and>
     sublist (u ''life story'') (lower ?rt ?msg) \<and>
     find (\<lambda>k. sublist k (lower ?rt ?msg)) keys = Some (u ''life story'') \<and>
     (\<forall>r. match_predefined_answer (?rt\<lparr>ratio := r\<rparr>) ?msg =
       Inr (Some life_story_answer))"
    by blast
qed

section \<open>Properties of the normaliser\<close>

text \<open>
  \<open>strip\<close> leaves a string that neither starts nor ends with whitespace.
\<close>

lemma strip_prefix_suffix:
  "dropWhile is_space s = strip s @ rev (takeWhile is_space (rev (dropWhile is_space s)))"
  unfolding strip_def by (metis rev_append rev_rev_ident takeWhile_dropWhile_id)

lemma trimmed_strip: "trimmed (strip s)"
proof (cases "strip s = []")
  case True
  then show ?thesis by (simp add: trimmed_def)
next
  case False
  let ?t = "dropWhile is_space s"
  let ?d = "dropWhile is_space (rev ?t)"
  have d: "?d \<noteq> []" using False by (simp add: strip_def)
  have "last (strip s) = hd ?d" using d by (simp add: strip_def last_rev)
  moreover have "\<not> is_space (hd ?d)" using d by (rule hd_dropWhile)
  ultimately have l: "\<not> is_space (last (strip s))" by simp
  have "hd ?t = hd (strip s)" using False strip_prefix_suffix[of s]
    by (metis hd_append2)
  moreover have "?t \<noteq> []" using False by (metis strip_prefix_suffix append_is_Nil_conv)
  then have "\<not> is_space (hd ?t)" by (rule hd_dropWhile)
  ultimately have "\<not> is_space (hd (strip s))" by simp
  with l False show ?thesis by (simp add: trimmed_def)
qed

lemma trimmed_Nil: "trimmed []"
  by (simp add: trimmed_def)

lemma outputs_pass_trimmed: "outputs_pass rt outputs = Inr (Some s) \<Longrightarrow> trimmed s"
  by (cases outputs)
     (auto simp: outputs_pass_def trimmed_strip split: sum.splits if_splits)

lemma mapping_pass_trimmed: "mapping_pass d ks = Some s \<Longrightarrow> trimmed s"
proof (induction ks)
  case Nil
  then show ?case by simp
next
  case (Cons key ks)
  then show ?case
    by (cases "dict_get d key") (auto simp: trimmed_strip split: if_splits)
qed

lemma fallback_trimmed:
  "bind_exn (py_str rt response) (\<lambda>t. Inr (if strip t \<noteq> [] then strip t else [])) = Inr s
   \<Longrightarrow> trimmed s"
  by (cases "py_str rt response") (auto simp: bind_exn_def trimmed_strip trimmed_Nil)

lemma mapping_or_str_trimmed: "mapping_or_str rt response = Inr s \<Longrightarrow> trimmed s"
proof (cases response)
  case (PDict d)
  assume a: "mapping_or_str rt response = Inr s"
  show ?thesis
  proof (cases "mapping_pass d [u ''text'', u ''reply'', u ''content'']")
    case None
    with PDict a show ?thesis
      by (auto simp: mapping_or_str_def simp del: mapping_pass.simps dest: fallback_trimmed)
  next
    case (Some t)
    then have "trimmed t" by (rule mapping_pass_trimmed)
    with PDict Some a show ?thesis by (simp add: mapping_or_str_def del: mapping_pass.simps)
  qed
qed (auto simp: mapping_or_str_def dest: fallback_trimmed)

lemma from_outputs_trimmed: "from_outputs rt response = Inr s \<Longrightarrow> trimmed s"
  by (auto simp: from_outputs_def bind_exn_def split: option.splits sum.splits
      dest: mapping_or_str_trimmed outputs_pass_trimmed)

lemma map_sum_strip_trimmed: "map_sum id strip x = Inr s \<Longrightarrow> trimmed s"
  by (cases x) (auto simp: trimmed_strip)

lemma from_candidates_trimmed: "from_candidates rt response = Inr s \<Longrightarrow> trimmed s"
proof (cases "attr response (u ''candidates'')")
  case None
  assume "from_candidates rt response = Inr s"
  with None show ?thesis by (auto simp: from_candidates_def dest: from_outputs_trimmed)
next
  case (Some c)
  assume "from_candidates rt response = Inr s"
  with Some show ?thesis
    by (cases c)
       (auto simp: from_candidates_def split: if_splits
             dest: map_sum_strip_trimmed from_outputs_trimmed)
qed

lemma extract_try_trimmed: "extract_try rt response = Inr s \<Longrightarrow> trimmed s"
proof (cases "attr response (u ''text'')")
  case None
  assume "extract_try rt response = Inr s"
  with None show ?thesis by (auto simp: extract_try_def dest: from_candidates_trimmed)
next
  case (Some c)
  assume "extract_try rt response = Inr s"
  with Some show ?thesis
    by (cases c) (auto simp: extract_try_def trimmed_strip dest: from_candidates_trimmed)
qed

text \<open>
  Every path of the normaliser that does not go through the \<open>except\<close> clause returns a
  trimmed string.
\<close>

lemma extract_trimmed_unless_error:
  assumes "extract_try rt response = Inr s"
  shows "extract_text_from_gemini_response rt response = Inr s \<and> trimmed s"
  using assms extract_try_trimmed[OF assms] by (simp add: extract_text_from_gemini_response_def)

text \<open>
  The normaliser on the inputs the specification names: \<open>None\<close>, an empty mapping, an empty
  list and an object with no recognised attribute.  On the first three the result is that
  of \<open>str()\<close>, trimmed when it returns.
\<close>

lemma extract_examples:
  "extract_text_from_gemini_response rt PNone = map_sum id strip (str_of rt PNone)"
  "extract_text_from_gemini_response rt (PDict []) = map_sum id strip (str_of rt (PDict []))"
  "extract_text_from_gemini_response rt (PList []) = map_sum id strip (str_of rt (PList []))"
  "extract_text_from_gemini_response rt (PObj [] t (Inr s)) = Inr (strip s)"
  by (auto simp: extract_text_from_gemini_response_def extract_try_def from_candidates_def
      from_outputs_def mapping_or_str_def py_str_def dict_get_def bind_exn_def
      split: sum.splits)

lemma typed_candidate_raises: "extract_try rt typed_candidate = Inl TypeError"
  by (simp add: extract_try_def from_candidates_def typed_candidate_def join_nonempty_def
      candidate_part_def py_or_def dict_get_def)

lemma raising_response_raises: "extract_try rt raising_response = Inl TypeError"
  by (simp add: extract_try_def from_candidates_def raising_response_def join_nonempty_def
      candidate_part_def py_or_def dict_get_def)

lemma unprintable_raises: "extract_text_from_gemini_response rt unprintable = Inl boom"
  by (simp add: extract_text_from_gemini_response_def extract_try_def from_candidates_def
      from_outputs_def mapping_or_str_def unprintable_def py_str_def bind_exn_def boom_def)

text \<open>
  An exception that is no instance of \<open>Exception\<close> passes both \<open>except\<close> clauses: the
  item of \<open>interrupting_response\<close> is interrupted in \<open>str(item)\<close>, and the interrupt
  leaves the normaliser although \<open>str(response)\<close> returns.
\<close>

lemma interrupt_leaves_normaliser:
  "py_str rt interrupting_response = Inr (u ''response'')"
  "extract_text_from_gemini_response rt interrupting_response = Inl interrupt"
  by (simp_all add: extract_text_from_gemini_response_def extract_try_def from_candidates_def
      from_outputs_def outputs_pass_def output_parts_def item_part_def interrupting_response_def
      py_str_def bind_exn_def interrupt_def)

text \<open>
  C4, as the code has it.  An exception leaves the normaliser only when it is the one
  that \<open>str(response)\<close> itself raises, or when it is no instance of \<open>Exception\<close>.  So for
  every value whose \<open>str(response)\<close> returns a text \<open>t\<close>, when the extraction raises
  instances of \<open>Exception\<close> only, the normaliser returns a string, and that string is
  \<open>t\<close> when the extraction raised.
\<close>

theorem extract_raises_only_from_str:
  "(\<forall>e. extract_text_from_gemini_response rt response = Inl e \<longrightarrow>
         py_str rt response = Inl e \<or> \<not> is_Exception e) \<and>
   (\<forall>t. py_str rt response = Inr t \<longrightarrow>
         (\<forall>e. extract_try rt response = Inl e \<longrightarrow> is_Exception e) \<longrightarrow>
         (\<exists>s. extract_text_from_gemini_response rt response = Inr s \<and>
              (\<forall>e. extract_try rt response = Inl e \<longrightarrow> s = t)))"
  by (cases "extract_try rt response")
     (auto simp: extract_text_from_gemini_response_def split: if_splits)

text \<open>
  \<open>raising_response\<close> and \<open>typed_candidate\<close> both make the join of the candidates' pieces
  raise \<open>TypeError\<close>.  The \<open>__str__\<close> of the first raises \<open>boom\<close>, which leaves the
  normaliser; the second prints, and the normaliser returns its text.
\<close>

theorem extract_raises_only_from_str_witness:
  "\<forall>rt. extract_text_from_gemini_response rt raising_response = Inl boom \<and>
        py_str rt raising_response = Inl boom \<and>
        py_str rt typed_candidate = Inr (u ''<response>'') \<and>
        extract_try rt typed_candidate = Inl TypeError \<and>
        is_Exception TypeError \<and>
        extract_text_from_gemini_response rt typed_candidate = Inr (u ''<response>'')"
proof (intro allI)
  fix rt
  have p1: "py_str rt raising_response = Inl boom"
    by (simp add: py_str_def raising_response_def)
  have e1: "extract_text_from_gemini_response rt raising_response = Inl boom"
    using raising_response_raises[of rt] p1 by (simp add: extract_text_from_gemini_response_def)
  have p2: "py_str rt typed_candidate = Inr (u ''<response>'')"
    by (simp add: py_str_def typed_candidate_def)
  note t2 = typed_candidate_raises[of rt]
  have "extract_text_from_gemini_response rt typed_candidate = Inr (u ''<response>'')"
    using extract_raises_only_from_str[of rt typed_candidate] p2 t2 by auto
  with p1 e1 p2 t2
  show "extract_text_from_gemini_response rt raising_response = Inl boom \<and>
        py_str rt raising_response = Inl boom \<and>
        py_str rt typed_candidate = Inr (u ''<response>'') \<and>
        extract_try rt typed_candidate = Inl TypeError \<and>
        is_Exception TypeError \<and>
        extract_text_from_gemini_response rt typed_candidate = Inr (u ''<response>'')"
    by simp
qed

text \<open>
  The claim as stated, that the normaliser never raises for any input value, fails:
  on \<open>raising_response\<close> the \<open>except\<close> clause runs \<open>str(response)\<close>, which raises.
\<close>

theorem extract_never_raises_counterexample:
  "\<not> (\<forall>rt response. \<exists>s. extract_text_from_gemini_response rt response = Inr s)"
proof
  assume "\<forall>rt response. \<exists>s. extract_text_from_gemini_response rt response = Inr s"
  then obtain s where
    "extract_text_from_gemini_response (reference (\<lambda>v. Inr []) (\<lambda>e. [])) raising_response = Inr s"
    by blast
  moreover have "extract_text_from_gemini_response (reference (\<lambda>v. Inr []) (\<lambda>e. [])) raising_response
                 = Inl boom"
    using raising_response_raises
    by (simp add: extract_text_from_gemini_response_def py_str_def raising_response_def)
  ultimately show False by simp
qed

text \<open>
  C5.  On the error path the result is not trimmed: the \<open>except\<close> clause returns
  \<open>str(response)\<close> as it is, where the last line of the \<open>try\<close> returns
  \<open>str(response).strip()\<close>.  \<open>padded_response\<close> has a candidate whose content is an object,
  so the join raises, and its \<open>__str__\<close> gives \<open>" reply "\<close>, which the normaliser
  returns with its blanks.
\<close>

theorem extract_error_path_untrimmed:
  "extract_text_from_gemini_response rt padded_response = Inr (u '' reply '') \<and>
   \<not> trimmed (u '' reply '')"
  by (simp add: extract_text_from_gemini_response_def extract_try_def from_candidates_def
      padded_response_def join_nonempty_def candidate_part_def py_or_def attr_or_none_def
      py_str_def trimmed_def is_space_def)

section \<open>Properties of the handler\<close>

lemma subscript_nonempty: "subscript key = Inr a \<Longrightarrow> a \<noteq> []"
  by (auto simp: subscript_def split: option.splits dest!: map_of_SomeD answers_nonempty)

lemma map_sum_Some: "map_sum id Some x = Inr (Some a) \<Longrightarrow> x = Inr a"
  by (cases x) auto

lemma match_nonempty: "match_predefined_answer rt message = Inr (Some a) \<Longrightarrow> a \<noteq> []"
  unfolding match_predefined_answer_def Let_def
  by (auto split: if_splits option.splits prod.splits
      dest!: map_sum_Some dest: subscript_nonempty)

lemma call_raises_try_block:
  "snd (pick c) model (prompt_for user_message) = Inl e
   \<Longrightarrow> fst (try_block rt model c user_message) = Inl e"
  by (cases "pick c") (simp add: try_block_def Let_def bind_exn_def)

lemma try_block_reply:
  "try_block rt model c user_message = (Inr r, calls) \<Longrightarrow> \<exists>t. r = reply_response t"
  by (cases "pick c") (auto simp: try_block_def Let_def bind_exn_def split: sum.splits)

lemma has_field_reply:
  "has_field (reply_response t) ''reply''" "\<not> has_field (reply_response t) ''error''"
  by (simp_all add: has_field_def reply_response_def)

lemma has_field_error:
  "has_field (error_response t c) ''error''" "\<not> has_field (error_response t c) ''reply''"
  by (simp_all add: has_field_def error_response_def)

lemma chat_shapes:
  "fst (chat rt cfg data) = Inr r \<Longrightarrow> (\<exists>t. r = reply_response t) \<or> (\<exists>t c. r = error_response t c)"
  unfolding chat_def
  by (auto split: if_splits sum.splits option.splits prod.splits dest: try_block_reply)

lemma post_parse: "user_message_of (post text) = Inr (Some (strip text))"
  by (simp add: user_message_of_def post_def bind_exn_def)

lemma strip_weather: "strip weather = weather"
  by code_simp

lemma strip_life_story: "strip life_story = life_story"
  by code_simp

lemma weather_no_match: "match_predefined_answer (reference so se) weather = Inr None"
  by code_simp

lemma life_story_match:
  "match_predefined_answer (reference so se) life_story = Inr (Some life_story_answer)"
  by code_simp

text \<open>
  A generated reply, end to end: the weather request with a client that answers
  \<open>" Sunny. "\<close> under \<open>text\<close>.  One call is issued, through the primary interface, and
  the reply is the trimmed text.
\<close>

lemma generated_reply_example:
  "chat (reference so se) (configured answering_client) (post weather) =
     (Inr (reply_response (u ''Sunny.'')),
      [(GenerateContent, u ''gemini-2.0-flash'', prompt_for weather)])"
proof -
  have "try_block (reference so se) (u ''gemini-2.0-flash'') answering_client weather =
          (Inr (reply_response (u ''Sunny.'')),
           [(GenerateContent, u ''gemini-2.0-flash'', prompt_for weather)])"
    by (simp add: try_block_def pick_def answering_client_def client_with_def bind_exn_def
        extract_text_from_gemini_response_def extract_try_def strip_def is_space_def)
  then show ?thesis
    by (simp add: chat_def post_parse strip_weather weather_no_match configured_def)
       (simp add: post_def weather_def)
qed

text \<open>
  C1, as the code has it.  The empty JSON object is falsy, so \<open>if not data\<close> answers
  it as a missing body: status 400 and \<open>{"error": "No JSON body provided"}\<close>, with no
  external call.
\<close>

theorem empty_object_is_no_body:
  "chat rt cfg (PDict []) = (Inr (error_response (u ''No JSON body provided'') 400), [])"
  by (simp add: chat_def)

text \<open>
  The claim as stated, that \<open>{}\<close> is answered with
  \<open>{"error": "No 'message' or 'messages' provided"}\<close>, fails.
\<close>

theorem empty_object_counterexample:
  "\<not> (\<forall>rt cfg. fst (chat rt cfg (PDict [])) = Inr (error_response no_fields_message 400))"
  by (simp add: chat_def error_response_def no_fields_message_def)

text \<open>
  C6.  For every body that parses to a non-empty message on which the matcher returns an
  answer, the handler returns status 200 with \<open>{"reply": answer}\<close> and has issued no
  external call, whatever the configuration.
\<close>

theorem canned_reply_short_circuits:
  assumes "truthy data"
    and "user_message_of data = Inr (Some user_message)"
    and "user_message \<noteq> []"
    and "match_predefined_answer rt user_message = Inr (Some answer)"
  shows "chat rt cfg data =
           (Inr \<lparr>body = PDict [(PStr (u ''reply''), PStr answer)], status = 200\<rparr>, [])"
  using assms match_nonempty[OF assms(4)]
  by (simp add: chat_def reply_response_def)

text \<open>
  The specification's request \<open>{"message": "tell me about your life story"}\<close>, with a
  configured client: the life-story answer, and no call.
\<close>

theorem canned_reply_short_circuits_witness:
  "\<forall>so se. truthy (post life_story) \<and>
     user_message_of (post life_story) = Inr (Some life_story) \<and>
     life_story \<noteq> [] \<and>
     match_predefined_answer (reference so se) life_story = Inr (Some life_story_answer) \<and>
     chat (reference so se) (configured answering_client) (post life_story) =
       (Inr \<lparr>body = PDict [(PStr (u ''reply''), PStr life_story_answer)], status = 200\<rparr>, [])"
proof (intro allI)
  fix so se
  have t: "truthy (post life_story)" by (simp add: post_def)
  have p: "user_message_of (post life_story) = Inr (Some life_story)"
    by (simp add: post_parse strip_life_story)
  have n: "life_story \<noteq> []" by (simp add: life_story_def)
  note m = life_story_match[of so se]
  from canned_reply_short_circuits[OF t p n m, of "configured answering_client"] t p n m
  show "truthy (post life_story) \<and>
     user_message_of (post life_story) = Inr (Some life_story) \<and>
     life_story \<noteq> [] \<and>
     match_predefined_answer (reference so se) life_story = Inr (Some life_story_answer) \<and>
     chat (reference so se) (configured answering_client) (post life_story) =
       (Inr \<lparr>body = PDict [(PStr (u ''reply''), PStr life_story_answer)], status = 200\<rparr>, [])"
    by blast
qed

text \<open>
  C7.  For every body that parses to a non-empty message with no canned answer, when
  no client is configured the handler returns status 200 with the fixed explanatory
  reply, and has issued no external call.
\<close>

theorem unconfigured_backend_reply:
  assumes "truthy data"
    and "user_message_of data = Inr (Some user_message)"
    and "user_message \<noteq> []"
    and "match_predefined_answer rt user_message = Inr None"
    and "client cfg = None"
  shows "chat rt cfg data =
           (Inr \<lparr>body = PDict [(PStr (u ''reply''), PStr backend_unconfigured)], status = 200\<rparr>, [])"
  using assms by (simp add: chat_def reply_response_def)

text \<open>
  The specification's request \<open>{"message": "what's the weather in Tokyo"}\<close>.
\<close>

theorem unconfigured_backend_reply_witness:
  "\<forall>so se. truthy (post weather) \<and>
     user_message_of (post weather) = Inr (Some weather) \<and>
     weather \<noteq> [] \<and>
     match_predefined_answer (reference so se) weather = Inr None \<and>
     client unconfigured = None \<and>
     chat (reference so se) unconfigured (post weather) =
       (Inr \<lparr>body = PDict [(PStr (u ''reply''), PStr backend_unconfigured)], status = 200\<rparr>, [])"
proof (intro allI)
  fix so se
  have t: "truthy (post weather)" by (simp add: post_def)
  have p: "user_message_of (post weather) = Inr (Some weather)"
    by (simp add: post_parse strip_weather)
  have n: "weather \<noteq> []" by (simp add: weather_def)
  note m = weather_no_match[of so se]
  have c: "client unconfigured = None" by (simp add: unconfigured_def)
  from unconfigured_backend_reply[OF t p n m c] t p n m c
  show "truthy (post weather) \<and>
     user_message_of (post weather) = Inr (Some weather) \<and>
     weather \<noteq> [] \<and>
     match_predefined_answer (reference so se) weather = Inr None \<and>
     client unconfigured = None \<and>
     chat (reference so se) unconfigured (post weather) =
       (Inr \<lparr>body = PDict [(PStr (u ''reply''), PStr backend_unconfigured)], status = 200\<rparr>, [])"
    by blast
qed

text \<open>
  An exception that is no instance of \<open>Exception\<close> passes the handler's \<open>except\<close> clause,
  and so does the exception that \<open>str(e)\<close> raises inside the clause.
\<close>

lemma uncaught_leaves_handler:
  assumes "truthy data"
    and "user_message_of data = Inr (Some user_message)"
    and "user_message \<noteq> []"
    and "match_predefined_answer rt user_message = Inr None"
    and "client cfg = Some c"
    and "fst (try_block rt (DEFAULT_MODEL cfg) c user_message) = Inl e"
  shows "\<not> is_Exception e \<Longrightarrow> fst (chat rt cfg data) = Inl e"
    and "is_Exception e \<Longrightarrow> exn_message rt e = Inl e' \<Longrightarrow> fst (chat rt cfg data) = Inl e'"
  using assms
  by (cases "try_block rt (DEFAULT_MODEL cfg) c user_message"; simp add: chat_def)+

lemma interrupted_try_block:
  "fst (try_block rt model interrupted_client user_message) = Inl interrupt"
  by (rule call_raises_try_block) (simp add: pick_def interrupted_client_def client_with_def)

lemma unprintable_try_block:
  "fst (try_block rt model unprintable_client user_message) = Inl boom"
  by (simp add: try_block_def Let_def pick_def unprintable_client_def client_with_def bind_exn_def
      unprintable_raises)

text \<open>
  C8, as the code has it.  For every exception \<open>e\<close> raised in the handler's \<open>try\<close> (the
  external call and the normalisation of its result) that is an instance of \<open>Exception\<close>
  and whose \<open>str(e)\<close> returns a text \<open>t\<close>, the handler returns, and what it returns is
  status 500 with \<open>{"error": "Gemini error: " + t}\<close>.
\<close>

theorem upstream_exception_is_500:
  assumes "truthy data"
    and "user_message_of data = Inr (Some user_message)"
    and "user_message \<noteq> []"
    and "match_predefined_answer rt user_message = Inr None"
    and "client cfg = Some c"
    and "fst (try_block rt (DEFAULT_MODEL cfg) c user_message) = Inl e"
    and "is_Exception e"
    and "exn_message rt e = Inr t"
  shows "fst (chat rt cfg data) =
           Inr \<lparr>body = PDict [(PStr (u ''error''), PStr (u ''Gemini error: '' @ t))],
                status = 500\<rparr>"
  using assms
  by (cases "try_block rt (DEFAULT_MODEL cfg) c user_message")
     (simp add: chat_def error_response_def)

text \<open>
  The weather request with a client whose call raises \<open>quota exceeded\<close>, and with a
  client whose response makes the normaliser raise \<open>boom\<close>.
\<close>

theorem upstream_exception_is_500_witness:
  "\<forall>so se. truthy (post weather) \<and>
     user_message_of (post weather) = Inr (Some weather) \<and>
     weather \<noteq> [] \<and>
     match_predefined_answer (reference so se) weather = Inr None \<and>
     client (configured failing_client) = Some failing_client \<and>
     fst (try_block (reference so se) (DEFAULT_MODEL (configured failing_client)) failing_client
            weather) = Inl (Raised True (Inr (u ''quota exceeded''))) \<and>
     is_Exception (Raised True (Inr (u ''quota exceeded''))) \<and>
     exn_message (reference so se) (Raised True (Inr (u ''quota exceeded''))) =
       Inr (u ''quota exceeded'') \<and>
     fst (chat (reference so se) (configured failing_client) (post weather)) =
       Inr \<lparr>body = PDict [(PStr (u ''error''), PStr (u ''Gemini error: quota exceeded''))],
            status = 500\<rparr> \<and>
     client (configured unprintable_client) = Some unprintable_client \<and>
     fst (try_block (reference so se) (DEFAULT_MODEL (configured unprintable_client))
            unprintable_client weather) = Inl boom \<and>
     is_Exception boom \<and>
     exn_message (reference so se) boom = Inr (u ''boom'') \<and>
     fst (chat (reference so se) (configured unprintable_client) (post weather)) =
       Inr \<lparr>body = PDict [(PStr (u ''error''), PStr (u ''Gemini error: boom''))],
            status = 500\<rparr>"
proof (intro allI)
  fix so se
  let ?rt = "reference so se"
  let ?q = "Raised True (Inr (u ''quota exceeded''))"
  have t: "truthy (post weather)" by (simp add: post_def)
  have p: "user_message_of (post weather) = Inr (Some weather)"
    by (simp add: post_parse strip_weather)
  have n: "weather \<noteq> []" by (simp add: weather_def)
  note m = weather_no_match[of so se]
  have c: "client (configured failing_client) = Some failing_client" by (simp add: configured_def)
  have "snd (pick failing_client) (DEFAULT_MODEL (configured failing_client)) (prompt_for weather) =
          Inl ?q"
    by (simp add: pick_def failing_client_def client_with_def)
  then have e: "fst (try_block ?rt (DEFAULT_MODEL (configured failing_client))
                   failing_client weather) = Inl ?q"
    by (rule call_raises_try_block)
  have i: "is_Exception ?q" by simp
  have s: "exn_message ?rt ?q = Inr (u ''quota exceeded'')"
    by (simp add: exn_message_def)
  have r1: "fst (chat ?rt (configured failing_client) (post weather)) =
       Inr \<lparr>body = PDict [(PStr (u ''error''), PStr (u ''Gemini error: quota exceeded''))],
            status = 500\<rparr>"
    using upstream_exception_is_500[OF t p n m c e i s] by simp
  have c2: "client (configured unprintable_client) = Some unprintable_client"
    by (simp add: configured_def)
  note e2 = unprintable_try_block[of ?rt "DEFAULT_MODEL (configured unprintable_client)" weather]
  have i2: "is_Exception boom" by (simp add: boom_def)
  have s2: "exn_message ?rt boom = Inr (u ''boom'')"
    by (simp add: exn_message_def boom_def)
  have r2: "fst (chat ?rt (configured unprintable_client) (post weather)) =
       Inr \<lparr>body = PDict [(PStr (u ''error''), PStr (u ''Gemini error: boom''))],
            status = 500\<rparr>"
    using upstream_exception_is_500[OF t p n m c2 e2 i2 s2] by simp
  from t p n m c e i s r1 c2 e2 i2 s2 r2
  show "truthy (post weather) \<and>
     user_message_of (post weather) = Inr (Some weather) \<and>
     weather \<noteq> [] \<and>
     match_predefined_answer ?rt weather = Inr None \<and>
     client (configured failing_client) = Some failing_client \<and>
     fst (try_block ?rt (DEFAULT_MODEL (configured failing_client)) failing_client
            weather) = Inl ?q \<and>
     is_Exception ?q \<and>
     exn_message ?rt ?q = Inr (u ''quota exceeded'') \<and>
     fst (chat ?rt (configured failing_client) (post weather)) =
       Inr \<lparr>body = PDict [(PStr (u ''error''), PStr (u ''Gemini error: quota exceeded''))],
            status = 500\<rparr> \<and>
     client (configured unprintable_client) = Some unprintable_client \<and>
     fst (try_block ?rt (DEFAULT_MODEL (configured unprintable_client))
            unprintable_client weather) = Inl boom \<and>
     is_Exception boom \<and>
     exn_message ?rt boom = Inr (u ''boom'') \<and>
     fst (chat ?rt (configured unprintable_client) (post weather)) =
       Inr \<lparr>body = PDict [(PStr (u ''error''), PStr (u ''Gemini error: boom''))],
            status = 500\<rparr>"
    by blast
qed

text \<open>
  The claim as stated, for every exception, fails: when the client's call is interrupted
  (\<open>KeyboardInterrupt\<close>), the handler returns no response; the exception leaves it.
\<close>

theorem upstream_exception_counterexample:
  "\<not> (\<forall>so se. \<exists>r. fst (chat (reference so se) (configured interrupted_client) (post weather)) = Inr r)"
proof
  assume a: "\<forall>so se. \<exists>r.
    fst (chat (reference so se) (configured interrupted_client) (post weather)) = Inr r"
  let ?rt = "reference (\<lambda>v. Inr []) (\<lambda>e. [])"
  have t: "truthy (post weather)" by (simp add: post_def)
  have p: "user_message_of (post weather) = Inr (Some weather)"
    by (simp add: post_parse strip_weather)
  have n: "weather \<noteq> []" by (simp add: weather_def)
  have c: "client (configured interrupted_client) = Some interrupted_client"
    by (simp add: configured_def)
  have "\<not> is_Exception interrupt" by (simp add: interrupt_def)
  then have "fst (chat ?rt (configured interrupted_client) (post weather)) = Inl interrupt"
    by (rule uncaught_leaves_handler(1)[OF t p n weather_no_match c interrupted_try_block])
  with a show False by (metis sum.distinct(1))
qed

text \<open>
  C9.  Every response the handler returns has a string under exactly one of the fields
  \<open>reply\<close> and \<open>error\<close>.
\<close>

theorem reply_xor_error:
  assumes "fst (chat rt cfg data) = Inr r"
  shows "has_field r ''reply'' \<noteq> has_field r ''error''"
  using chat_shapes[OF assms] has_field_reply has_field_error by auto

text \<open>
  The request \<open>{"message": ""}\<close>: an \<open>error\<close> field and no \<open>reply\<close> field.
\<close>

theorem reply_xor_error_witness:
  "\<forall>rt. fst (chat rt unconfigured (post [])) = Inr (error_response (u ''Empty message provided'') 400) \<and>
     has_field (error_response (u ''Empty message provided'') 400) ''reply'' \<noteq>
     has_field (error_response (u ''Empty message provided'') 400) ''error''"
proof (intro allI)
  fix rt
  have "strip [] = []" by (simp add: strip_def)
  then have c: "fst (chat rt unconfigured (post [])) = Inr (error_response (u ''Empty message provided'') 400)"
    by (simp add: chat_def post_parse) (simp add: post_def)
  from reply_xor_error[OF c] c
  show "fst (chat rt unconfigured (post [])) = Inr (error_response (u ''Empty message provided'') 400) \<and>
     has_field (error_response (u ''Empty message provided'') 400) ''reply'' \<noteq>
     has_field (error_response (u ''Empty message provided'') 400) ''error''"
    by blast
qed

text \<open>
  C10.  For every non-empty JSON object that has a \<open>message\<close> field whose value is not
  a string and no \<open>messages\<close> field, the handler returns status 400 with
  \<open>{"error": "No 'message' or 'messages' provided"}\<close>.
\<close>

theorem non_string_message_is_absent:
  assumes "d \<noteq> []"
    and "map_of d (PStr (u ''message'')) = Some v"
    and "\<forall>s. v \<noteq> PStr s"
    and "PStr (u ''messages'') \<notin> fst ` set d"
  shows "chat rt cfg (PDict d) = (Inr (error_response no_fields_message 400), [])"
proof -
  have "PStr (u ''message'') \<in> fst ` set d"
    using assms(2) by (metis map_of_eq_None_iff option.distinct(1))
  then have "user_message_of (PDict d) = Inr None"
    using assms(2,3,4)
    by (cases v) (simp_all add: user_message_of_def bind_exn_def)
  then show ?thesis using assms(1) by (simp add: chat_def)
qed

text \<open>
  The body \<open>{"message": 5}\<close>.
\<close>

theorem non_string_message_is_absent_witness:
  "\<forall>rt cfg. [(PStr (u ''message''), PInt 5)] \<noteq> [] \<and>
     map_of [(PStr (u ''message''), PInt 5)] (PStr (u ''message'')) = Some (PInt 5) \<and>
     (\<forall>s. PInt 5 \<noteq> PStr s) \<and>
     PStr (u ''messages'') \<notin> fst ` set [(PStr (u ''message''), PInt 5)] \<and>
     chat rt cfg (PDict [(PStr (u ''message''), PInt 5)]) =
       (Inr (error_response no_fields_message 400), [])"
proof (intro allI)
  fix rt cfg
  let ?d = "[(PStr (u ''message''), PInt 5)]"
  have a: "?d \<noteq> []" by simp
  have b: "map_of ?d (PStr (u ''message'')) = Some (PInt 5)" by simp
  have c: "\<forall>s. PInt 5 \<noteq> PStr s" by simp
  have d: "PStr (u ''messages'') \<notin> fst ` set ?d" by simp
  from non_string_message_is_absent[OF a b c d, of rt cfg] a b c d
  show "?d \<noteq> [] \<and> map_of ?d (PStr (u ''message'')) = Some (PInt 5) \<and>
     (\<forall>s. PInt 5 \<noteq> PStr s) \<and> PStr (u ''messages'') \<notin> fst ` set ?d \<and>
     chat rt cfg (PDict ?d) = (Inr (error_response no_fields_message 400), [])"
    by blast
qed

end
